theory Spec2Isabelle
  imports Main "HOL-Library.Sublist"
begin

section \<open>Values, records and effects\<close>

text \<open>
  The dashboard (\<^verbatim>\<open>src/src/App.jsx\<close>) and the WhatsApp service
  (\<^verbatim>\<open>src/src/lib/whatsapp.js\<close>) work on rows of the \<^verbatim>\<open>appointments\<close> table and
  on two environment variables. A column value or an environment variable is a JavaScript
  string, \<^verbatim>\<open>null\<close> or \<^verbatim>\<open>undefined\<close>.
\<close>

datatype jsval = JUndefined | JNull | JStr string

text \<open>JavaScript truthiness (\<^verbatim>\<open>if (x)\<close>, \<^verbatim>\<open>!x\<close>, \<^verbatim>\<open>x ? a : b\<close>, \<^verbatim>\<open>x && y\<close>):
  the empty string, \<^verbatim>\<open>null\<close> and \<^verbatim>\<open>undefined\<close> are falsy.\<close>

fun truthy :: "jsval \<Rightarrow> bool" where
  "truthy JUndefined = False"
| "truthy JNull = False"
| "truthy (JStr s) = (s \<noteq> [])"

text \<open>The string a template literal \<^verbatim>\<open>`${x}`\<close> puts in place of \<^verbatim>\<open>x\<close>.\<close>

fun template_str :: "jsval \<Rightarrow> string" where
  "template_str JUndefined = ''undefined''"
| "template_str JNull = ''null''"
| "template_str (JStr s) = s"

record appointment =
  apt_id :: jsval
  full_name :: jsval
  phone :: jsval
  email :: jsval
  preferred_date :: jsval
  location :: jsval
  notes_field :: jsval
  status :: jsval
  created_at :: jsval

text \<open>An exception value: a \<^verbatim>\<open>TypeError\<close> raised by the language, or the reason of a
  rejected promise (network failure, unreadable response body, store client failure).\<close>

datatype js_exn = TypeError string | Rejected string

datatype 'a outcome = Throws js_exn | Returns 'a

text \<open>The provider's parsed JSON payload is opaque to the program; it is kept as text.\<close>

type_synonym json = string

datatype json_outcome = JsonRejects js_exn | JsonResolves json

record response =
  ok :: bool
  json :: json_outcome

datatype fetch_outcome = FetchRejects js_exn | FetchResolves response

text \<open>The request \<^verbatim>\<open>sendWhatsAppMessage\<close> hands to \<^verbatim>\<open>fetch\<close>: the URL, the method, the
  two headers and the four members of the JSON body.\<close>

record request =
  url :: string
  http_method :: string
  authorization :: string
  content_type :: string
  messaging_product :: string
  to_field :: string
  type_field :: string
  text_body :: string

text \<open>The object \<^verbatim>\<open>sendWhatsAppMessage\<close> returns: \<^verbatim>\<open>success\<close> is always present,
  \<^verbatim>\<open>error\<close> and \<^verbatim>\<open>data\<close> are properties that may be missing. The specification
  calls \<^verbatim>\<open>success\<close> "delivered" and the other property "detail".\<close>

datatype detail = DStr string | DJson json | DExn js_exn

record wa_result =
  success :: bool
  error :: "detail option"
  data :: "json option"

type_synonym store_error = string

text \<open>Everything outside the two modules is a parameter: the environment variables,
  the network (\<^verbatim>\<open>fetch\<close> and \<^verbatim>\<open>response.json()\<close>), the locale-dependent
  \<^verbatim>\<open>new Date(d).toLocaleDateString()\<close>, and the store client. A store call resolves to
  \<^verbatim>\<open>{ data, error }\<close> (\<^verbatim>\<open>None\<close> is \<^verbatim>\<open>null\<close>) or rejects.\<close>

record env =
  WHATSAPP_TOKEN :: jsval
  PHONE_NUMBER_ID :: jsval
  fetch :: "request \<Rightarrow> fetch_outcome"
  toLocaleDateString :: "jsval \<Rightarrow> string"
  store_update :: "jsval \<Rightarrow> string \<Rightarrow> store_error option outcome"
  store_select :: "(appointment list option \<times> store_error option) outcome"

text \<open>The effects a call performs, in order: console output, the network request, the
  store calls, the call of the notifier from the dashboard, and the \<^verbatim>\<open>alert\<close> box.\<close>

datatype event =
    ConsoleWarn string
  | ConsoleError string
  | FetchCall request
  | StoreSelect
  | StoreUpdate jsval string
  | NotifierCall appointment string
  | Alert string

section \<open>The WhatsApp service\<close>

definition VERSION :: string where
  "VERSION = ''v18.0''"

text \<open>The character class \<^verbatim>\<open>\D\<close> is every character that is not one of \<^verbatim>\<open>0\<close> to
  \<^verbatim>\<open>9\<close>; \<^verbatim>\<open>to.replace(/\D/g, '')\<close> keeps the digits. A character outside ASCII is
  never a digit, whatever its encoding, so it is dropped here as it is there.\<close>

definition digit :: "char \<Rightarrow> bool" where
  "digit c = (c \<in> set ''0123456789'')"

definition cleanPhone :: "string \<Rightarrow> string" where
  "cleanPhone to = filter digit to"

definition formattedPhone :: "string \<Rightarrow> string" where
  "formattedPhone to =
     (if length (cleanPhone to) = 10 then ''91'' @ cleanPhone to else cleanPhone to)"

text \<open>The request built in \<^verbatim>\<open>sendWhatsAppMessage\<close> for a destination string.\<close>

definition buildRequest :: "env \<Rightarrow> string \<Rightarrow> string \<Rightarrow> request" where
  "buildRequest e to message =
     \<lparr> url = ''https://graph.facebook.com/'' @ VERSION @ ''/''
             @ template_str (PHONE_NUMBER_ID e) @ ''/messages'',
       http_method = ''POST'',
       authorization = ''Bearer '' @ template_str (WHATSAPP_TOKEN e),
       content_type = ''application/json'',
       messaging_product = ''whatsapp'',
       to_field = formattedPhone to,
       type_field = ''text'',
       text_body = message \<rparr>"

text \<open>The body of the \<^verbatim>\<open>try\<close> block of \<^verbatim>\<open>sendWhatsAppMessage\<close>. Calling
  \<^verbatim>\<open>to.replace\<close> on \<^verbatim>\<open>null\<close> or \<^verbatim>\<open>undefined\<close> raises a \<^verbatim>\<open>TypeError\<close> before any
  request is built.\<close>

definition sendWhatsAppMessage_try :: "env \<Rightarrow> jsval \<Rightarrow> string \<Rightarrow> wa_result outcome \<times> event list" where
  "sendWhatsAppMessage_try e to message =
     (case to of
        JStr s \<Rightarrow>
          (let req = buildRequest e s message
           in case fetch e req of
                FetchRejects x \<Rightarrow> (Throws x, [FetchCall req])
              | FetchResolves response \<Rightarrow>
                  (case json response of
                     JsonRejects x \<Rightarrow> (Throws x, [FetchCall req])
                   | JsonResolves d \<Rightarrow>
                       if \<not> ok response
                       then (Returns \<lparr> success = False, error = Some (DJson d), data = None \<rparr>,
                             [FetchCall req, ConsoleError ''WhatsApp API Error:''])
                       else (Returns \<lparr> success = True, error = None, data = Some d \<rparr>,
                             [FetchCall req])))
      | JNull \<Rightarrow> (Throws (TypeError ''Cannot read properties of null (reading 'replace')''), [])
      | JUndefined \<Rightarrow>
          (Throws (TypeError ''Cannot read properties of undefined (reading 'replace')''), []))"

definition sendWhatsAppMessage :: "env \<Rightarrow> jsval \<Rightarrow> string \<Rightarrow> wa_result outcome \<times> event list" where
  "sendWhatsAppMessage e to message =
     (if \<not> truthy (WHATSAPP_TOKEN e) \<or> \<not> truthy (PHONE_NUMBER_ID e)
      then (Returns \<lparr> success = False, error = Some (DStr ''Credentials missing''), data = None \<rparr>,
            [ConsoleWarn ''WhatsApp credentials missing. Message not sent:''])
      else (case sendWhatsAppMessage_try e to message of
              (Throws x, tr) \<Rightarrow>
                (Returns \<lparr> success = False, error = Some (DExn x), data = None \<rparr>,
                 tr @ [ConsoleError ''WhatsApp Service Error:''])
            | (Returns r, tr) \<Rightarrow> (Returns r, tr)))"

text \<open>\<^verbatim>\<open>dateStr\<close> of \<^verbatim>\<open>sendStatusUpdateMessage\<close>.\<close>

definition dateStr :: "env \<Rightarrow> appointment \<Rightarrow> string" where
  "dateStr e appointment =
     (if truthy (preferred_date appointment)
      then toLocaleDateString e (preferred_date appointment)
      else ''the requested date'')"

text \<open>The \<^verbatim>\<open>switch\<close> of \<^verbatim>\<open>sendStatusUpdateMessage\<close>: the message of a status, or
  \<^verbatim>\<open>None\<close> in the \<^verbatim>\<open>default\<close> branch, where the function returns at once.\<close>

definition statusMessage :: "env \<Rightarrow> appointment \<Rightarrow> string \<Rightarrow> string option" where
  "statusMessage e appointment st =
     (if st = ''confirmed'' then
        Some (''Hello '' @ template_str (full_name appointment)
              @ '', your appointment with Dr. Vaibbhav Guray on '' @ dateStr e appointment
              @ '' at our '' @ template_str (location appointment)
              @ '' center has been CONFIRMED. We look forward to seeing you!'')
      else if st = ''cancelled'' then
        Some (''Hello '' @ template_str (full_name appointment)
              @ '', we are sorry to inform you that your appointment with Dr. Vaibbhav Guray on ''
              @ dateStr e appointment
              @ '' has been CANCELLED. Please contact us to reschedule.'')
      else if st = ''completed'' then
        Some (''Hello '' @ template_str (full_name appointment)
              @ '', thank you for visiting Dr. Vaibbhav Guray today! We hope you have a great day. Feel free to contact us for any follow-up concerns.'')
      else None)"

text \<open>\<^verbatim>\<open>sendStatusUpdateMessage\<close> returns \<^verbatim>\<open>undefined\<close> (\<^verbatim>\<open>None\<close>) from the default
  branch and the result of \<^verbatim>\<open>sendWhatsAppMessage\<close> otherwise.\<close>

definition sendStatusUpdateMessage ::
    "env \<Rightarrow> appointment \<Rightarrow> string \<Rightarrow> wa_result option outcome \<times> event list" where
  "sendStatusUpdateMessage e appointment st =
     (case statusMessage e appointment st of
        None \<Rightarrow> (Returns None, [])
      | Some message \<Rightarrow>
          (case sendWhatsAppMessage e (phone appointment) message of
             (Throws x, tr) \<Rightarrow> (Throws x, tr)
           | (Returns r, tr) \<Rightarrow> (Returns (Some r), tr)))"

section \<open>The dashboard's registry\<close>

text \<open>The five state variables of \<^verbatim>\<open>App\<close>.\<close>

record app_state =
  appointments :: "appointment list"
  loading :: bool
  error_state :: "string option"
  filter_state :: string
  refreshing :: bool

text \<open>\<^verbatim>\<open>fetchAppointments\<close>: the state after the \<^verbatim>\<open>finally\<close> block, and the effects.\<close>

definition fetchAppointments :: "env \<Rightarrow> app_state \<Rightarrow> app_state \<times> event list" where
  "fetchAppointments e s =
     (let s1 = s\<lparr> refreshing := True \<rparr>;
          (s2, tr) =
            (case store_select e of
               Returns (d, None) \<Rightarrow>
                 (s1\<lparr> appointments := (case d of None \<Rightarrow> [] | Some rows \<Rightarrow> rows),
                      error_state := None \<rparr>, [StoreSelect])
             | Returns (d, Some err) \<Rightarrow>
                 (s1\<lparr> error_state := Some ''Failed to load appointments. Please try again.'' \<rparr>,
                  [StoreSelect, ConsoleError ''Error fetching appointments:''])
             | Throws x \<Rightarrow>
                 (s1\<lparr> error_state := Some ''Failed to load appointments. Please try again.'' \<rparr>,
                  [StoreSelect, ConsoleError ''Error fetching appointments:'']))
      in (s2\<lparr> loading := False, refreshing := False \<rparr>, tr))"

text \<open>The counts the dashboard derives from the snapshot (\<^verbatim>\<open>stats\<close>).\<close>

record stats_rec =
  total :: nat
  pending :: nat
  confirmed :: nat
  completed :: nat
  cancelled :: nat

definition stats :: "appointment list \<Rightarrow> stats_rec" where
  "stats as =
     \<lparr> total = length as,
       pending = length (filter (\<lambda>a. status a = JStr ''pending'') as),
       confirmed = length (filter (\<lambda>a. status a = JStr ''confirmed'') as),
       completed = length (filter (\<lambda>a. status a = JStr ''completed'') as),
       cancelled = length (filter (\<lambda>a. status a = JStr ''cancelled'') as) \<rparr>"

text \<open>The local patch of \<^verbatim>\<open>updateStatus\<close>:
  \<^verbatim>\<open>prev.map(apt => apt.id === id ? { ...apt, status: newStatus } : apt)\<close>.\<close>

definition patch :: "jsval \<Rightarrow> string \<Rightarrow> appointment list \<Rightarrow> appointment list" where
  "patch i newStatus prev =
     map (\<lambda>apt. if apt_id apt = i then apt\<lparr> status := JStr newStatus \<rparr> else apt) prev"

text \<open>\<^verbatim>\<open>updateStatus\<close>. The snapshot the handler closed over and the one the state
  setter receives are the same list when no other update runs in between, which is the
  case modelled. A failed store call, or an exception of the notifier, ends in the
  \<^verbatim>\<open>catch\<close> block.\<close>

definition updateStatus :: "env \<Rightarrow> app_state \<Rightarrow> jsval \<Rightarrow> string \<Rightarrow> app_state \<times> event list" where
  "updateStatus e s i newStatus =
     (let appointment = find (\<lambda>a. apt_id a = i) (appointments s);
          failed = [ConsoleError ''Error updating status:'',
                    Alert ''Failed to update status. Please try again.'']
      in case store_update e i newStatus of
           Throws x \<Rightarrow> (s, StoreUpdate i newStatus # failed)
         | Returns (Some err) \<Rightarrow> (s, StoreUpdate i newStatus # failed)
         | Returns None \<Rightarrow>
             (let s' = s\<lparr> appointments := patch i newStatus (appointments s) \<rparr>
              in case appointment of
                   None \<Rightarrow> (s', [StoreUpdate i newStatus])
                 | Some a \<Rightarrow>
                     if newStatus \<in> set [''confirmed'', ''cancelled'', ''completed'']
                     then (case sendStatusUpdateMessage e a newStatus of
                             (Throws x, tr) \<Rightarrow>
                               (s', StoreUpdate i newStatus # NotifierCall a newStatus # tr @ failed)
                           | (Returns r, tr) \<Rightarrow>
                               (s', StoreUpdate i newStatus # NotifierCall a newStatus # tr))
                     else (s', [StoreUpdate i newStatus])))"

text \<open>Projections of a trace, used to state what a call did and did not do.\<close>

fun is_fetch :: "event \<Rightarrow> bool" where
  "is_fetch (FetchCall r) = True"
| "is_fetch _ = False"

fun is_notifier_call :: "event \<Rightarrow> bool" where
  "is_notifier_call (NotifierCall a st) = True"
| "is_notifier_call _ = False"

fun is_store_update :: "event \<Rightarrow> bool" where
  "is_store_update (StoreUpdate i st) = True"
| "is_store_update _ = False"

fun is_alert :: "event \<Rightarrow> bool" where
  "is_alert (Alert m) = True"
| "is_alert _ = False"

text \<open>The events the WhatsApp service itself can produce.\<close>

fun is_channel_event :: "event \<Rightarrow> bool" where
  "is_channel_event (FetchCall r) = True"
| "is_channel_event (ConsoleWarn m) = True"
| "is_channel_event (ConsoleError m) = True"
| "is_channel_event _ = False"

text \<open>The three statuses \<^verbatim>\<open>updateStatus\<close> notifies for.\<close>

definition worthy :: "string \<Rightarrow> bool" where
  "worthy st = (st \<in> set [''confirmed'', ''cancelled'', ''completed''])"

text \<open>Concrete inputs for the examples below: the record of the specification's
  end-to-end scenario, a network that accepts every request, and a store that accepts
  every write.\<close>

definition asha :: appointment where
  "asha = \<lparr> apt_id = JStr ''a1'', full_name = JStr ''Asha'', phone = JStr ''9876543210'',
            email = JNull, preferred_date = JStr ''2026-01-02'', location = JStr ''Pune'',
            notes_field = JNull, status = JStr ''pending'', created_at = JStr ''2025-12-01'' \<rparr>"

definition demo_env :: env where
  "demo_env = \<lparr> WHATSAPP_TOKEN = JStr ''token'', PHONE_NUMBER_ID = JStr ''12345'',
                fetch = (\<lambda>r. FetchResolves \<lparr> ok = True, json = JsonResolves ''{}'' \<rparr>),
                toLocaleDateString = (\<lambda>d. ''1/2/2026''),
                store_update = (\<lambda>i st. Returns None),
                store_select = Returns (Some [asha], None) \<rparr>"

definition demo_state :: app_state where
  "demo_state = \<lparr> appointments = [asha], loading = False, error_state = None,
                  filter_state = ''all'', refreshing = False \<rparr>"

section \<open>Phone normalisation\<close>

lemma cleanPhone_digits: "list_all digit (cleanPhone to)"
  by (simp add: cleanPhone_def list_all_iff)

lemma cleanPhone_idem: "cleanPhone (cleanPhone to) = cleanPhone to"
  by (simp add: cleanPhone_def)

lemma cleanPhone_all_digits: "list_all digit s \<Longrightarrow> cleanPhone s = s"
  by (simp add: cleanPhone_def list_all_iff)

lemma digit_9: "digit CHR ''9''" and digit_1: "digit CHR ''1''"
  by (simp_all add: digit_def)

lemma formattedPhone_digits: "list_all digit (formattedPhone to)"
  using cleanPhone_digits [of to] by (simp add: formattedPhone_def digit_9 digit_1)

lemma formattedPhone_length: "length (formattedPhone to) \<noteq> 10"
  by (simp add: formattedPhone_def)


text \<open>
  Claim C5. Normalising a destination first strips every character that is not a digit;
  when exactly 10 digits remain, "91" is put in front, otherwise the digit string is used
  as it is. "9876543210" and "+91 98765 43210" both become "919876543210", and
  "00919876543210" stays "00919876543210".
\<close>

theorem formattedPhone_normalizes:
  "cleanPhone to = filter (\<lambda>c. c \<in> set ''0123456789'') to
   \<and> formattedPhone to
       = (if length (cleanPhone to) = 10 then ''91'' @ cleanPhone to else cleanPhone to)
   \<and> formattedPhone ''9876543210'' = ''919876543210''
   \<and> formattedPhone ''+91 98765 43210'' = ''919876543210''
   \<and> formattedPhone ''00919876543210'' = ''00919876543210''"
proof -
  have strip: "cleanPhone to = filter (\<lambda>c. c \<in> set ''0123456789'') to"
    unfolding cleanPhone_def digit_def ..
  have branch: "formattedPhone to
       = (if length (cleanPhone to) = 10 then ''91'' @ cleanPhone to else cleanPhone to)"
    by (simp add: formattedPhone_def)
  have ex1: "formattedPhone ''9876543210'' = ''919876543210''"
    by (simp add: formattedPhone_def cleanPhone_def digit_def)
  have ex2: "formattedPhone ''+91 98765 43210'' = ''919876543210''"
    by (simp add: formattedPhone_def cleanPhone_def digit_def)
  have ex3: "formattedPhone ''00919876543210'' = ''00919876543210''"
    by (simp add: formattedPhone_def cleanPhone_def digit_def)
  from strip branch ex1 ex2 ex3 show ?thesis by blast
qed

theorem formattedPhone_normalizes_witness:
  "formattedPhone ''(020) 555-01 23'' = ''910205550123''"
  using formattedPhone_normalizes [of "''(020) 555-01 23''"] by simp

text \<open>
  Claim C10. Normalisation is idempotent: normalising an output gives the same output,
  because an output consists of digits only and never has length 10 (it has length 12
  after the prefix was added, and is the stripped string of another length otherwise).
\<close>

theorem formattedPhone_idempotent:
  "formattedPhone (formattedPhone to) = formattedPhone to
   \<and> list_all digit (formattedPhone to)
   \<and> length (formattedPhone to) \<noteq> 10
   \<and> (length (formattedPhone to) = 12 \<or> formattedPhone to = cleanPhone to)"
proof -
  let ?out = "formattedPhone to"
  have digits: "list_all digit ?out" by (rule formattedPhone_digits)
  have len: "length ?out \<noteq> 10" by (rule formattedPhone_length)
  from digits have "cleanPhone ?out = ?out" by (rule cleanPhone_all_digits)
  with len have idem: "formattedPhone ?out = ?out"
    by (simp add: formattedPhone_def [of ?out])
  have shape: "length ?out = 12 \<or> ?out = cleanPhone to"
    by (simp add: formattedPhone_def)
  from idem digits len shape show ?thesis by blast
qed

theorem formattedPhone_idempotent_witness:
  "formattedPhone (formattedPhone ''98765-43210'') = ''919876543210''"
proof -
  have a: "formattedPhone ''98765-43210'' = ''919876543210''"
    by (simp add: formattedPhone_def cleanPhone_def digit_def)
  have "formattedPhone (formattedPhone ''98765-43210'') = formattedPhone ''98765-43210''"
    using formattedPhone_idempotent [of "''98765-43210''"] by (rule conjunct1)
  with a show ?thesis by (simp only:)
qed

section \<open>The channel adapter never throws\<close>

lemma sendWhatsAppMessage_returns:
  "\<exists>r tr. sendWhatsAppMessage e to message = (Returns r, tr)"
  by (cases "sendWhatsAppMessage_try e to message"; cases "fst (sendWhatsAppMessage_try e to message)")
     (auto simp: sendWhatsAppMessage_def)

lemma sendStatusUpdateMessage_returns:
  "\<exists>r tr. sendStatusUpdateMessage e a st = (Returns r, tr)"
proof (cases "statusMessage e a st")
  case None
  then show ?thesis by (simp add: sendStatusUpdateMessage_def)
next
  case (Some m)
  obtain r tr where "sendWhatsAppMessage e (phone a) m = (Returns r, tr)"
    using sendWhatsAppMessage_returns by blast
  with Some show ?thesis by (simp add: sendStatusUpdateMessage_def)
qed

text \<open>
  Claim C6. When the access token or the sender's phone-number id is not configured,
  \<^verbatim>\<open>sendWhatsAppMessage\<close> returns at once a result with \<^verbatim>\<open>success\<close> false, throws
  nothing and makes no network request.
\<close>

theorem sendWhatsAppMessage_credentials_missing:
  assumes "\<not> truthy (WHATSAPP_TOKEN e) \<or> \<not> truthy (PHONE_NUMBER_ID e)"
  shows "\<exists>r tr. sendWhatsAppMessage e to message = (Returns r, tr)
           \<and> \<not> success r
           \<and> error r = Some (DStr ''Credentials missing'')
           \<and> filter is_fetch tr = []"
  using assms by (auto simp: sendWhatsAppMessage_def)

theorem sendWhatsAppMessage_credentials_missing_witness:
  "\<exists>r tr. sendWhatsAppMessage (demo_env\<lparr> WHATSAPP_TOKEN := JUndefined \<rparr>)
              (JStr ''9876543210'') ''hi'' = (Returns r, tr)
           \<and> \<not> success r
           \<and> error r = Some (DStr ''Credentials missing'')
           \<and> filter is_fetch tr = []"
proof -
  have "\<not> truthy (WHATSAPP_TOKEN (demo_env\<lparr> WHATSAPP_TOKEN := JUndefined \<rparr>))
        \<or> \<not> truthy (PHONE_NUMBER_ID (demo_env\<lparr> WHATSAPP_TOKEN := JUndefined \<rparr>))"
    by simp
  then show ?thesis by (rule sendWhatsAppMessage_credentials_missing)
qed

text \<open>
  Claim C7. \<^verbatim>\<open>sendWhatsAppMessage\<close> never passes an exception to its caller. With the
  credentials configured and a destination string: a response that is not ok gives
  \<^verbatim>\<open>success\<close> false with the provider's payload as \<^verbatim>\<open>error\<close>; a rejected request, and
  likewise a response whose body cannot be read, gives \<^verbatim>\<open>success\<close> false with the
  exception as \<^verbatim>\<open>error\<close>; an ok response gives \<^verbatim>\<open>success\<close> true with the provider's
  payload as \<^verbatim>\<open>data\<close>.
\<close>

theorem sendWhatsAppMessage_never_throws:
  "(\<exists>r. fst (sendWhatsAppMessage e to message) = Returns r)
   \<and> (truthy (WHATSAPP_TOKEN e) \<and> truthy (PHONE_NUMBER_ID e) \<and> to = JStr s \<longrightarrow>
        (\<forall>resp d. fetch e (buildRequest e s message) = FetchResolves resp
                   \<and> json resp = JsonResolves d \<and> \<not> ok resp \<longrightarrow>
             fst (sendWhatsAppMessage e to message)
               = Returns \<lparr> success = False, error = Some (DJson d), data = None \<rparr>)
      \<and> (\<forall>x. fetch e (buildRequest e s message) = FetchRejects x \<longrightarrow>
             fst (sendWhatsAppMessage e to message)
               = Returns \<lparr> success = False, error = Some (DExn x), data = None \<rparr>)
      \<and> (\<forall>resp x. fetch e (buildRequest e s message) = FetchResolves resp
                   \<and> json resp = JsonRejects x \<longrightarrow>
             fst (sendWhatsAppMessage e to message)
               = Returns \<lparr> success = False, error = Some (DExn x), data = None \<rparr>)
      \<and> (\<forall>resp d. fetch e (buildRequest e s message) = FetchResolves resp
                   \<and> json resp = JsonResolves d \<and> ok resp \<longrightarrow>
             fst (sendWhatsAppMessage e to message)
               = Returns \<lparr> success = True, error = None, data = Some d \<rparr>))"
proof -
  have total: "\<exists>r. fst (sendWhatsAppMessage e to message) = Returns r"
    using sendWhatsAppMessage_returns [of e to message] by auto
  have cases: "truthy (WHATSAPP_TOKEN e) \<and> truthy (PHONE_NUMBER_ID e) \<and> to = JStr s \<longrightarrow>
        (\<forall>resp d. fetch e (buildRequest e s message) = FetchResolves resp
                   \<and> json resp = JsonResolves d \<and> \<not> ok resp \<longrightarrow>
             fst (sendWhatsAppMessage e to message)
               = Returns \<lparr> success = False, error = Some (DJson d), data = None \<rparr>)
      \<and> (\<forall>x. fetch e (buildRequest e s message) = FetchRejects x \<longrightarrow>
             fst (sendWhatsAppMessage e to message)
               = Returns \<lparr> success = False, error = Some (DExn x), data = None \<rparr>)
      \<and> (\<forall>resp x. fetch e (buildRequest e s message) = FetchResolves resp
                   \<and> json resp = JsonRejects x \<longrightarrow>
             fst (sendWhatsAppMessage e to message)
               = Returns \<lparr> success = False, error = Some (DExn x), data = None \<rparr>)
      \<and> (\<forall>resp d. fetch e (buildRequest e s message) = FetchResolves resp
                   \<and> json resp = JsonResolves d \<and> ok resp \<longrightarrow>
             fst (sendWhatsAppMessage e to message)
               = Returns \<lparr> success = True, error = None, data = Some d \<rparr>)"
    by (simp add: sendWhatsAppMessage_def sendWhatsAppMessage_try_def)
  from total cases show ?thesis by (rule conjI)
qed

theorem sendWhatsAppMessage_never_throws_witness:
  "fst (sendWhatsAppMessage
          (demo_env\<lparr> fetch := (\<lambda>r. FetchResolves \<lparr> ok = False, json = JsonResolves ''invalid token'' \<rparr>) \<rparr>)
          (JStr ''9876543210'') ''hi'')
     = Returns \<lparr> success = False, error = Some (DJson ''invalid token''), data = None \<rparr>"
proof -
  let ?e = "demo_env\<lparr> fetch := (\<lambda>r. FetchResolves \<lparr> ok = False, json = JsonResolves ''invalid token'' \<rparr>) \<rparr>"
  let ?resp = "\<lparr> ok = False, json = JsonResolves ''invalid token'' \<rparr>"
  have creds: "truthy (WHATSAPP_TOKEN ?e) \<and> truthy (PHONE_NUMBER_ID ?e)
               \<and> JStr ''9876543210'' = JStr ''9876543210''"
    by (simp add: demo_env_def)
  have reply: "fetch ?e (buildRequest ?e ''9876543210'' ''hi'') = FetchResolves ?resp
               \<and> json ?resp = JsonResolves ''invalid token'' \<and> \<not> ok ?resp"
    by simp
  from sendWhatsAppMessage_never_throws [of ?e "JStr ''9876543210''" "''hi''" "''9876543210''"]
       creds reply
  show ?thesis by blast
qed

section \<open>The notifier\<close>

text \<open>
  Claim C3, as amended. For a status other than confirmed, completed and cancelled (pending
  among them), \<^verbatim>\<open>sendStatusUpdateMessage\<close> returns at once with no result object
  (\<^verbatim>\<open>undefined\<close>) and performs no effect at all, so nothing is sent to the channel.
\<close>

theorem sendStatusUpdateMessage_not_worthy:
  "\<not> worthy st \<Longrightarrow> sendStatusUpdateMessage e a st = (Returns None, [])"
  by (simp add: worthy_def sendStatusUpdateMessage_def statusMessage_def)

theorem sendStatusUpdateMessage_not_worthy_witness:
  "\<not> worthy ''pending'' \<and> sendStatusUpdateMessage demo_env asha ''pending'' = (Returns None, [])"
proof -
  have h: "\<not> worthy ''pending''" by (simp add: worthy_def)
  from h sendStatusUpdateMessage_not_worthy [OF h, of demo_env asha] show ?thesis by simp
qed

text \<open>The claim as stated asks for a result object with \<^verbatim>\<open>success\<close> (delivered) false
  and the detail "not notification-worthy"; for pending the function returns
  \<^verbatim>\<open>undefined\<close> instead.\<close>

theorem sendStatusUpdateMessage_pending_counterexample:
  "fst (sendStatusUpdateMessage demo_env asha ''pending'') = Returns None
   \<and> fst (sendStatusUpdateMessage demo_env asha ''pending'')
       \<noteq> Returns (Some \<lparr> success = False,
                          error = Some (DStr ''not notification-worthy''), data = None \<rparr>)"
  by (simp add: sendStatusUpdateMessage_def statusMessage_def)

lemma statusMessage_None_iff: "statusMessage e a st = None \<longleftrightarrow> \<not> worthy st"
  by (auto simp: statusMessage_def worthy_def)

lemma sendStatusUpdateMessage_one_request:
  assumes "truthy (WHATSAPP_TOKEN e)" "truthy (PHONE_NUMBER_ID e)"
      and "phone a = JStr p" "statusMessage e a st = Some m"
  shows "filter is_fetch (snd (sendStatusUpdateMessage e a st)) = [FetchCall (buildRequest e p m)]"
  using assms
  by (auto simp: sendStatusUpdateMessage_def sendWhatsAppMessage_def sendWhatsAppMessage_try_def
                 Let_def
           split: fetch_outcome.splits json_outcome.splits)

text \<open>
  Claim C4, as amended. The message of each of the three statuses is a fixed text with
  fields put in: the confirmed text takes the full name, the formatted preferred date and
  the location; the cancelled text takes the full name and the formatted preferred date;
  the completed text takes the full name only, so it depends neither on the date nor on
  the location. The formatted date is the fixed placeholder when the date is absent.
  No other status has a message. With credentials and a destination string, the one
  request made carries exactly that message.
\<close>

theorem statusMessage_templates:
  "statusMessage e a ''confirmed''
     = Some (''Hello '' @ template_str (full_name a)
             @ '', your appointment with Dr. Vaibbhav Guray on '' @ dateStr e a
             @ '' at our '' @ template_str (location a)
             @ '' center has been CONFIRMED. We look forward to seeing you!'')
   \<and> statusMessage e a ''cancelled''
     = Some (''Hello '' @ template_str (full_name a)
             @ '', we are sorry to inform you that your appointment with Dr. Vaibbhav Guray on ''
             @ dateStr e a @ '' has been CANCELLED. Please contact us to reschedule.'')
   \<and> statusMessage e a ''completed''
     = Some (''Hello '' @ template_str (full_name a)
             @ '', thank you for visiting Dr. Vaibbhav Guray today! We hope you have a great day. Feel free to contact us for any follow-up concerns.'')
   \<and> statusMessage e (a\<lparr> location := l \<rparr>) ''cancelled'' = statusMessage e a ''cancelled''
   \<and> statusMessage e (a\<lparr> location := l, preferred_date := d \<rparr>) ''completed''
       = statusMessage e a ''completed''
   \<and> (preferred_date a = JNull \<or> preferred_date a = JUndefined
        \<longrightarrow> dateStr e a = ''the requested date'')
   \<and> (truthy (preferred_date a) \<longrightarrow> dateStr e a = toLocaleDateString e (preferred_date a))
   \<and> (statusMessage e a st = None \<longleftrightarrow> st \<notin> {''confirmed'', ''completed'', ''cancelled''})
   \<and> (truthy (WHATSAPP_TOKEN e) \<and> truthy (PHONE_NUMBER_ID e) \<and> phone a = JStr p
        \<and> statusMessage e a st = Some m
        \<longrightarrow> filter is_fetch (snd (sendStatusUpdateMessage e a st))
              = [FetchCall (buildRequest e p m)])"
proof (intro conjI)
  show "statusMessage e a ''confirmed''
     = Some (''Hello '' @ template_str (full_name a)
             @ '', your appointment with Dr. Vaibbhav Guray on '' @ dateStr e a
             @ '' at our '' @ template_str (location a)
             @ '' center has been CONFIRMED. We look forward to seeing you!'')"
    by (simp add: statusMessage_def)
  show "statusMessage e a ''cancelled''
     = Some (''Hello '' @ template_str (full_name a)
             @ '', we are sorry to inform you that your appointment with Dr. Vaibbhav Guray on ''
             @ dateStr e a @ '' has been CANCELLED. Please contact us to reschedule.'')"
    by (simp add: statusMessage_def)
  show "statusMessage e a ''completed''
     = Some (''Hello '' @ template_str (full_name a)
             @ '', thank you for visiting Dr. Vaibbhav Guray today! We hope you have a great day. Feel free to contact us for any follow-up concerns.'')"
    by (simp add: statusMessage_def)
  show "statusMessage e (a\<lparr> location := l \<rparr>) ''cancelled'' = statusMessage e a ''cancelled''"
    by (simp add: statusMessage_def dateStr_def)
  show "statusMessage e (a\<lparr> location := l, preferred_date := d \<rparr>) ''completed''
       = statusMessage e a ''completed''"
    by (simp add: statusMessage_def)
  show "preferred_date a = JNull \<or> preferred_date a = JUndefined
        \<longrightarrow> dateStr e a = ''the requested date''"
    by (auto simp: dateStr_def)
  show "truthy (preferred_date a) \<longrightarrow> dateStr e a = toLocaleDateString e (preferred_date a)"
    by (simp add: dateStr_def)
  show "statusMessage e a st = None \<longleftrightarrow> st \<notin> {''confirmed'', ''completed'', ''cancelled''}"
    by (auto simp: statusMessage_None_iff worthy_def)
  show "truthy (WHATSAPP_TOKEN e) \<and> truthy (PHONE_NUMBER_ID e) \<and> phone a = JStr p
        \<and> statusMessage e a st = Some m
        \<longrightarrow> filter is_fetch (snd (sendStatusUpdateMessage e a st))
              = [FetchCall (buildRequest e p m)]"
    using sendStatusUpdateMessage_one_request [of e a p st m] by blast
qed


theorem statusMessage_templates_witness:
  "statusMessage demo_env asha ''confirmed''
     = Some ''Hello Asha, your appointment with Dr. Vaibbhav Guray on 1/2/2026 at our Pune center has been CONFIRMED. We look forward to seeing you!''
   \<and> dateStr demo_env (asha\<lparr> preferred_date := JNull \<rparr>) = ''the requested date''
   \<and> filter is_fetch (snd (sendStatusUpdateMessage demo_env asha ''completed''))
       = [FetchCall (buildRequest demo_env ''9876543210''
            ''Hello Asha, thank you for visiting Dr. Vaibbhav Guray today! We hope you have a great day. Feel free to contact us for any follow-up concerns.'')]"
proof (intro conjI)
  note T = statusMessage_templates [where e = demo_env and a = asha and st = "''completed''"
      and p = "''9876543210''"
      and m = "''Hello Asha, thank you for visiting Dr. Vaibbhav Guray today! We hope you have a great day. Feel free to contact us for any follow-up concerns.''"]
  note N = statusMessage_templates [where e = demo_env and a = "asha\<lparr> preferred_date := JNull \<rparr>"]
  have d: "dateStr demo_env asha = ''1/2/2026''"
    by (simp add: dateStr_def demo_env_def asha_def)
  have f: "template_str (full_name asha) = ''Asha''" "template_str (location asha) = ''Pune''"
    by (simp_all add: asha_def)
  from T [THEN conjunct1]
  show "statusMessage demo_env asha ''confirmed''
     = Some ''Hello Asha, your appointment with Dr. Vaibbhav Guray on 1/2/2026 at our Pune center has been CONFIRMED. We look forward to seeing you!''"
    by (simp add: d f)
  from N [THEN conjunct2, THEN conjunct2, THEN conjunct2, THEN conjunct2, THEN conjunct2,
          THEN conjunct1]
  show "dateStr demo_env (asha\<lparr> preferred_date := JNull \<rparr>) = ''the requested date''"
    by simp
  have creds: "truthy (WHATSAPP_TOKEN demo_env) \<and> truthy (PHONE_NUMBER_ID demo_env)
               \<and> phone asha = JStr ''9876543210''"
    by (simp add: demo_env_def asha_def)
  have msg: "statusMessage demo_env asha ''completed''
       = Some ''Hello Asha, thank you for visiting Dr. Vaibbhav Guray today! We hope you have a great day. Feel free to contact us for any follow-up concerns.''"
    using T [THEN conjunct2, THEN conjunct2, THEN conjunct1] by (simp add: f)
  from T [THEN conjunct2, THEN conjunct2, THEN conjunct2, THEN conjunct2, THEN conjunct2,
          THEN conjunct2, THEN conjunct2, THEN conjunct2] creds msg
  show "filter is_fetch (snd (sendStatusUpdateMessage demo_env asha ''completed''))
       = [FetchCall (buildRequest demo_env ''9876543210''
            ''Hello Asha, thank you for visiting Dr. Vaibbhav Guray today! We hope you have a great day. Feel free to contact us for any follow-up concerns.'')]"
    by (simp only: conj_assoc simp_thms)
qed

text \<open>The claim as stated puts the formatted date into each of the three messages; the
  completed message of a record with a date does not contain it, and is three sentences
  long.\<close>

theorem statusMessage_completed_counterexample:
  "dateStr demo_env asha = ''1/2/2026''
   \<and> statusMessage demo_env asha ''completed''
       = Some ''Hello Asha, thank you for visiting Dr. Vaibbhav Guray today! We hope you have a great day. Feel free to contact us for any follow-up concerns.''
   \<and> \<not> sublist ''1/2/2026''
         ''Hello Asha, thank you for visiting Dr. Vaibbhav Guray today! We hope you have a great day. Feel free to contact us for any follow-up concerns.''"
proof (intro conjI)
  show "dateStr demo_env asha = ''1/2/2026''"
    by (simp add: dateStr_def demo_env_def asha_def)
  show "statusMessage demo_env asha ''completed''
       = Some ''Hello Asha, thank you for visiting Dr. Vaibbhav Guray today! We hope you have a great day. Feel free to contact us for any follow-up concerns.''"
    by (simp add: statusMessage_def asha_def)
  show "\<not> sublist ''1/2/2026''
         ''Hello Asha, thank you for visiting Dr. Vaibbhav Guray today! We hope you have a great day. Feel free to contact us for any follow-up concerns.''"
  proof
    assume "sublist ''1/2/2026''
           ''Hello Asha, thank you for visiting Dr. Vaibbhav Guray today! We hope you have a great day. Feel free to contact us for any follow-up concerns.''"
    then have sub: "set ''1/2/2026'' \<subseteq> set ''Hello Asha, thank you for visiting Dr. Vaibbhav Guray today! We hope you have a great day. Feel free to contact us for any follow-up concerns.''"
      by (rule set_mono_sublist)
    have one: "CHR ''1'' \<in> set ''1/2/2026''" by simp
    from sub one have "CHR ''1'' \<in> set ''Hello Asha, thank you for visiting Dr. Vaibbhav Guray today! We hope you have a great day. Feel free to contact us for any follow-up concerns.''"
      by (rule subsetD)
    then show False by simp
  qed
qed

section \<open>The registry\<close>

lemma sendWhatsAppMessage_trace: "list_all is_channel_event (snd (sendWhatsAppMessage e to m))"
  by (auto simp: sendWhatsAppMessage_def sendWhatsAppMessage_try_def Let_def
           split: jsval.splits fetch_outcome.splits json_outcome.splits)

lemma sendStatusUpdateMessage_trace:
  "list_all is_channel_event (snd (sendStatusUpdateMessage e a st))"
proof (cases "statusMessage e a st")
  case None
  then show ?thesis by (simp add: sendStatusUpdateMessage_def)
next
  case (Some m)
  obtain r tr where r: "sendWhatsAppMessage e (phone a) m = (Returns r, tr)"
    using sendWhatsAppMessage_returns by blast
  with sendWhatsAppMessage_trace [of e "phone a" m] have "list_all is_channel_event tr" by simp
  with Some r show ?thesis by (simp add: sendStatusUpdateMessage_def)
qed

lemma channel_events_filtered:
  "list_all is_channel_event tr \<Longrightarrow>
     filter is_store_update tr = [] \<and> filter is_notifier_call tr = [] \<and> filter is_alert tr = []"
proof (induction tr)
  case Nil
  then show ?case by simp
next
  case (Cons ev tr)
  then show ?case by (cases ev) simp_all
qed

lemma updateStatus_committed:
  assumes "store_update e i ns = Returns None"
  shows "updateStatus e s i ns
           = (s\<lparr> appointments := patch i ns (appointments s) \<rparr>,
              StoreUpdate i ns #
                (case find (\<lambda>a. apt_id a = i) (appointments s) of
                   None \<Rightarrow> []
                 | Some a \<Rightarrow> if worthy ns
                             then NotifierCall a ns # snd (sendStatusUpdateMessage e a ns)
                             else []))"
proof (cases "find (\<lambda>a. apt_id a = i) (appointments s)")
  case None
  with assms show ?thesis by (simp add: updateStatus_def)
next
  case (Some a)
  obtain r tr where "sendStatusUpdateMessage e a ns = (Returns r, tr)"
    using sendStatusUpdateMessage_returns by blast
  with assms Some show ?thesis by (simp add: updateStatus_def worthy_def)
qed

lemma updateStatus_rejected:
  assumes "store_update e i ns \<noteq> Returns None"
  shows "updateStatus e s i ns
           = (s, [StoreUpdate i ns, ConsoleError ''Error updating status:'',
                  Alert ''Failed to update status. Please try again.''])"
proof (cases "store_update e i ns")
  case (Throws x)
  then show ?thesis by (simp add: updateStatus_def)
next
  case (Returns r)
  with assms obtain err where "r = Some err" by (cases r) auto
  with Returns show ?thesis by (simp add: updateStatus_def)
qed

lemma updateStatus_registry_view:
  "fst (updateStatus e s i ns)
     = (if store_update e i ns = Returns None
        then s\<lparr> appointments := patch i ns (appointments s) \<rparr> else s)
   \<and> filter is_store_update (snd (updateStatus e s i ns)) = [StoreUpdate i ns]
   \<and> filter is_notifier_call (snd (updateStatus e s i ns))
       = (case find (\<lambda>a. apt_id a = i) (appointments s) of
            None \<Rightarrow> []
          | Some a \<Rightarrow> if store_update e i ns = Returns None \<and> worthy ns
                      then [NotifierCall a ns] else [])
   \<and> filter is_alert (snd (updateStatus e s i ns))
       = (if store_update e i ns = Returns None then []
          else [Alert ''Failed to update status. Please try again.''])"
proof (cases "store_update e i ns = Returns None")
  case True
  show ?thesis
    using channel_events_filtered [OF sendStatusUpdateMessage_trace]
    by (simp add: updateStatus_committed [OF True] True split: option.splits)
next
  case False
  then show ?thesis by (simp add: updateStatus_rejected split: option.splits)
qed

text \<open>
  Claim C1. After a successful store write, \<^verbatim>\<open>updateStatus\<close> has made exactly one store
  write, has set the status field of the records with the given id and changed nothing
  else, and has called the notifier exactly once, after the write, with the record found
  in the snapshot before the write and the new status, if and only if the new status is
  confirmed, completed or cancelled and such a record was found. An id that is in the
  snapshot is found. When the id is not found, the store write is still made and the
  notifier is not called.
\<close>

theorem updateStatus_notifies:
  "(store_update e i ns = Returns None \<longrightarrow>
      fst (updateStatus e s i ns)
        = s\<lparr> appointments :=
               map (\<lambda>apt. if apt_id apt = i then apt\<lparr> status := JStr ns \<rparr> else apt)
                   (appointments s) \<rparr>
      \<and> filter is_store_update (snd (updateStatus e s i ns)) = [StoreUpdate i ns]
      \<and> (\<forall>a. find (\<lambda>a. apt_id a = i) (appointments s) = Some a \<longrightarrow>
            filter is_notifier_call (snd (updateStatus e s i ns))
              = (if ns \<in> {''confirmed'', ''completed'', ''cancelled''}
                 then [NotifierCall a ns] else [])
            \<and> (ns \<in> {''confirmed'', ''completed'', ''cancelled''} \<longrightarrow>
                 snd (updateStatus e s i ns)
                   = StoreUpdate i ns # NotifierCall a ns
                       # snd (sendStatusUpdateMessage e a ns))))
   \<and> (i \<in> apt_id ` set (appointments s) \<longrightarrow>
        (\<exists>a. find (\<lambda>a. apt_id a = i) (appointments s) = Some a
             \<and> a \<in> set (appointments s) \<and> apt_id a = i))
   \<and> (find (\<lambda>a. apt_id a = i) (appointments s) = None \<longrightarrow>
        filter is_store_update (snd (updateStatus e s i ns)) = [StoreUpdate i ns]
        \<and> filter is_notifier_call (snd (updateStatus e s i ns)) = [])"
proof (intro conjI impI allI)
  note view = updateStatus_registry_view [of e s i ns]
  show "filter is_store_update (snd (updateStatus e s i ns)) = [StoreUpdate i ns]"
    using view by blast
  then show "filter is_store_update (snd (updateStatus e s i ns)) = [StoreUpdate i ns]" .
  show "filter is_notifier_call (snd (updateStatus e s i ns)) = []"
    if "find (\<lambda>a. apt_id a = i) (appointments s) = None"
    using view that by simp
  show "\<exists>a. find (\<lambda>a. apt_id a = i) (appointments s) = Some a
             \<and> a \<in> set (appointments s) \<and> apt_id a = i"
    if "i \<in> apt_id ` set (appointments s)"
  proof (cases "find (\<lambda>a. apt_id a = i) (appointments s)")
    case None
    with that show ?thesis by (auto simp: find_None_iff)
  next
    case (Some a)
    then show ?thesis by (auto simp: find_Some_iff)
  qed
next
  assume ok: "store_update e i ns = Returns None"
  show "fst (updateStatus e s i ns)
        = s\<lparr> appointments :=
               map (\<lambda>apt. if apt_id apt = i then apt\<lparr> status := JStr ns \<rparr> else apt)
                   (appointments s) \<rparr>"
    by (simp add: updateStatus_committed [OF ok] patch_def)
  fix a
  assume found: "find (\<lambda>a. apt_id a = i) (appointments s) = Some a"
  show "filter is_notifier_call (snd (updateStatus e s i ns))
              = (if ns \<in> {''confirmed'', ''completed'', ''cancelled''}
                 then [NotifierCall a ns] else [])"
    using updateStatus_registry_view [of e s i ns] ok found
    by (auto simp: worthy_def)
  show "snd (updateStatus e s i ns)
          = StoreUpdate i ns # NotifierCall a ns # snd (sendStatusUpdateMessage e a ns)"
    if "ns \<in> {''confirmed'', ''completed'', ''cancelled''}"
    using that found by (auto simp: updateStatus_committed [OF ok] worthy_def)
qed

theorem updateStatus_notifies_witness:
  "snd (updateStatus demo_env demo_state (JStr ''a1'') ''confirmed'')
     = StoreUpdate (JStr ''a1'') ''confirmed'' # NotifierCall asha ''confirmed''
         # snd (sendStatusUpdateMessage demo_env asha ''confirmed'')
   \<and> status asha = JStr ''pending''
   \<and> map status (appointments (fst (updateStatus demo_env demo_state (JStr ''a1'') ''confirmed'')))
       = [JStr ''confirmed'']"
proof -
  have ok: "store_update demo_env (JStr ''a1'') ''confirmed'' = Returns None"
    by (simp add: demo_env_def)
  have found: "find (\<lambda>a. apt_id a = JStr ''a1'') (appointments demo_state) = Some asha"
    by (simp add: demo_state_def asha_def)
  have st: "appointments demo_state = [asha]" "apt_id asha = JStr ''a1''"
           "status asha = JStr ''pending''"
    by (simp_all add: demo_state_def asha_def)
  from updateStatus_notifies [of demo_env "JStr ''a1''" "''confirmed''" demo_state] ok found
  show ?thesis by (simp add: st)
qed

text \<open>
  Claim C2. Whatever the notification step does (the credentials, the provider's reply,
  a rejected request), the state after \<^verbatim>\<open>updateStatus\<close>, the store write made and the
  failure alert shown depend on the store's reply only: two environments whose store
  replies agree end in the same state, and after a successful write that state is the
  patched snapshot and no failure is reported.
\<close>

theorem notification_isolated:
  assumes "store_update e1 i ns = store_update e2 i ns"
  shows "fst (updateStatus e1 s i ns) = fst (updateStatus e2 s i ns)
         \<and> filter is_store_update (snd (updateStatus e1 s i ns))
             = filter is_store_update (snd (updateStatus e2 s i ns))
         \<and> filter is_alert (snd (updateStatus e1 s i ns))
             = filter is_alert (snd (updateStatus e2 s i ns))
         \<and> (store_update e1 i ns = Returns None \<longrightarrow>
               fst (updateStatus e1 s i ns) = s\<lparr> appointments := patch i ns (appointments s) \<rparr>
               \<and> filter is_alert (snd (updateStatus e1 s i ns)) = [])"
  using updateStatus_registry_view [of e1 s i ns] updateStatus_registry_view [of e2 s i ns] assms
  by simp

theorem notification_isolated_witness:
  "fst (updateStatus demo_env demo_state (JStr ''a1'') ''confirmed'')
     = fst (updateStatus (demo_env\<lparr> fetch := (\<lambda>r. FetchRejects (Rejected ''Failed to fetch'')) \<rparr>)
              demo_state (JStr ''a1'') ''confirmed'')
   \<and> fst (updateStatus demo_env demo_state (JStr ''a1'') ''confirmed'')
     = demo_state\<lparr> appointments := [asha\<lparr> status := JStr ''confirmed'' \<rparr>] \<rparr>"
proof -
  let ?e2 = "demo_env\<lparr> fetch := (\<lambda>r. FetchRejects (Rejected ''Failed to fetch'')) \<rparr>"
  have same: "store_update demo_env (JStr ''a1'') ''confirmed''
              = store_update ?e2 (JStr ''a1'') ''confirmed''"
    by simp
  have ok: "store_update demo_env (JStr ''a1'') ''confirmed'' = Returns None"
    by (simp add: demo_env_def)
  have p: "patch (JStr ''a1'') ''confirmed'' (appointments demo_state)
             = [asha\<lparr> status := JStr ''confirmed'' \<rparr>]"
    by (simp add: patch_def demo_state_def asha_def)
  note T = notification_isolated [OF same, of demo_state]
  from T have eq: "fst (updateStatus demo_env demo_state (JStr ''a1'') ''confirmed'')
     = fst (updateStatus ?e2 demo_state (JStr ''a1'') ''confirmed'')"
    by (rule conjunct1)
  from T ok have "fst (updateStatus demo_env demo_state (JStr ''a1'') ''confirmed'')
     = demo_state\<lparr> appointments := patch (JStr ''a1'') ''confirmed'' (appointments demo_state) \<rparr>"
    by blast
  then have pt: "fst (updateStatus demo_env demo_state (JStr ''a1'') ''confirmed'')
     = demo_state\<lparr> appointments := [asha\<lparr> status := JStr ''confirmed'' \<rparr>] \<rparr>"
    by (simp only: p)
  from eq pt show ?thesis by (rule conjI)
qed

text \<open>
  Claim C8. When the fetch of \<^verbatim>\<open>fetchAppointments\<close> fails (the store reports an error or
  the call rejects), the snapshot and the counts derived from it are those of before and
  the error is the user-facing message; when it succeeds, the snapshot is the fetched list
  (empty when the store returns no data) and the error is cleared; in every case the
  loading and refreshing flags are false afterwards.
\<close>

theorem fetchAppointments_outcomes:
  "(\<forall>rows. store_select e = Returns (rows, None) \<longrightarrow>
       appointments (fst (fetchAppointments e s)) = (case rows of None \<Rightarrow> [] | Some r \<Rightarrow> r)
       \<and> error_state (fst (fetchAppointments e s)) = None)
   \<and> ((\<exists>x. store_select e = Throws x) \<or> (\<exists>rows err. store_select e = Returns (rows, Some err)) \<longrightarrow>
       appointments (fst (fetchAppointments e s)) = appointments s
       \<and> stats (appointments (fst (fetchAppointments e s))) = stats (appointments s)
       \<and> error_state (fst (fetchAppointments e s))
           = Some ''Failed to load appointments. Please try again.'')
   \<and> \<not> loading (fst (fetchAppointments e s))
   \<and> \<not> refreshing (fst (fetchAppointments e s))"
proof (cases "store_select e")
  case (Throws x)
  then show ?thesis by (simp add: fetchAppointments_def)
next
  case (Returns r)
  obtain rows err where r: "r = (rows, err)" by (cases r)
  show ?thesis
  proof (cases err)
    case None
    with Returns r show ?thesis by (simp add: fetchAppointments_def)
  next
    case (Some x)
    with Returns r show ?thesis by (simp add: fetchAppointments_def)
  qed
qed

theorem fetchAppointments_outcomes_witness:
  "appointments (fst (fetchAppointments (demo_env\<lparr> store_select := Throws (Rejected ''offline'') \<rparr>)
                        (demo_state\<lparr> loading := True \<rparr>))) = [asha]
   \<and> error_state (fst (fetchAppointments (demo_env\<lparr> store_select := Throws (Rejected ''offline'') \<rparr>)
                        (demo_state\<lparr> loading := True \<rparr>)))
       = Some ''Failed to load appointments. Please try again.''
   \<and> \<not> loading (fst (fetchAppointments (demo_env\<lparr> store_select := Throws (Rejected ''offline'') \<rparr>)
                        (demo_state\<lparr> loading := True \<rparr>)))
   \<and> appointments (fst (fetchAppointments demo_env
                        (demo_state\<lparr> appointments := [], error_state := Some ''old'' \<rparr>))) = [asha]
   \<and> error_state (fst (fetchAppointments demo_env
                        (demo_state\<lparr> appointments := [], error_state := Some ''old'' \<rparr>))) = None"
proof -
  let ?e = "demo_env\<lparr> store_select := Throws (Rejected ''offline'') \<rparr>"
  have fails: "(\<exists>x. store_select ?e = Throws x)
               \<or> (\<exists>rows err. store_select ?e = Returns (rows, Some err))"
    by simp
  have succeeds: "store_select demo_env = Returns (Some [asha], None)"
    by (simp add: demo_env_def)
  have st: "appointments (demo_state\<lparr> loading := True \<rparr>) = [asha]"
    by (simp add: demo_state_def)
  from fetchAppointments_outcomes [of ?e "demo_state\<lparr> loading := True \<rparr>"] fails st
  have a: "appointments (fst (fetchAppointments ?e (demo_state\<lparr> loading := True \<rparr>))) = [asha]
     \<and> error_state (fst (fetchAppointments ?e (demo_state\<lparr> loading := True \<rparr>)))
         = Some ''Failed to load appointments. Please try again.''
     \<and> \<not> loading (fst (fetchAppointments ?e (demo_state\<lparr> loading := True \<rparr>)))"
    by simp
  from fetchAppointments_outcomes
         [of demo_env "demo_state\<lparr> appointments := [], error_state := Some ''old'' \<rparr>"] succeeds
  have b: "appointments (fst (fetchAppointments demo_env
                        (demo_state\<lparr> appointments := [], error_state := Some ''old'' \<rparr>))) = [asha]
   \<and> error_state (fst (fetchAppointments demo_env
                        (demo_state\<lparr> appointments := [], error_state := Some ''old'' \<rparr>))) = None"
    by simp
  from a b show ?thesis by simp
qed

text \<open>
  Claim C9. For a record whose phone number is \<^verbatim>\<open>null\<close> or \<^verbatim>\<open>undefined\<close>, with the
  credentials configured and a notification-worthy new status, the send returns a result
  with \<^verbatim>\<open>success\<close> false that carries the \<^verbatim>\<open>TypeError\<close>, makes no request and throws
  nothing; and a successful store write of \<^verbatim>\<open>updateStatus\<close> for that record is followed
  by the local patch and by no failure alert.
\<close>

theorem absent_phone_fails_gracefully:
  assumes "phone a = JNull \<or> phone a = JUndefined"
      and "truthy (WHATSAPP_TOKEN e)" and "truthy (PHONE_NUMBER_ID e)"
      and "worthy ns"
  shows "(\<exists>x. sendWhatsAppMessage e (phone a) message
               = (Returns \<lparr> success = False, error = Some (DExn (TypeError x)), data = None \<rparr>,
                  [ConsoleError ''WhatsApp Service Error:'']))
         \<and> (\<exists>r tr. sendStatusUpdateMessage e a ns = (Returns (Some r), tr)
                    \<and> \<not> success r \<and> filter is_fetch tr = [])
         \<and> (store_update e i ns = Returns None
              \<and> find (\<lambda>b. apt_id b = i) (appointments s) = Some a \<longrightarrow>
              fst (updateStatus e s i ns) = s\<lparr> appointments := patch i ns (appointments s) \<rparr>
              \<and> filter is_store_update (snd (updateStatus e s i ns)) = [StoreUpdate i ns]
              \<and> filter is_alert (snd (updateStatus e s i ns)) = [])"
proof (intro conjI)
  have send: "\<exists>x. sendWhatsAppMessage e (phone a) m
               = (Returns \<lparr> success = False, error = Some (DExn (TypeError x)), data = None \<rparr>,
                  [ConsoleError ''WhatsApp Service Error:''])" for m
    using assms(1-3) by (auto simp: sendWhatsAppMessage_def sendWhatsAppMessage_try_def)
  from send show "\<exists>x. sendWhatsAppMessage e (phone a) message
               = (Returns \<lparr> success = False, error = Some (DExn (TypeError x)), data = None \<rparr>,
                  [ConsoleError ''WhatsApp Service Error:''])" .
  from assms(4) obtain m where m: "statusMessage e a ns = Some m"
    using statusMessage_None_iff [of e a ns] by (cases "statusMessage e a ns") auto
  from send [of m] obtain x where "sendWhatsAppMessage e (phone a) m
               = (Returns \<lparr> success = False, error = Some (DExn (TypeError x)), data = None \<rparr>,
                  [ConsoleError ''WhatsApp Service Error:''])" ..
  with m show "\<exists>r tr. sendStatusUpdateMessage e a ns = (Returns (Some r), tr)
                    \<and> \<not> success r \<and> filter is_fetch tr = []"
    by (simp add: sendStatusUpdateMessage_def)
  show "store_update e i ns = Returns None
              \<and> find (\<lambda>b. apt_id b = i) (appointments s) = Some a \<longrightarrow>
              fst (updateStatus e s i ns) = s\<lparr> appointments := patch i ns (appointments s) \<rparr>
              \<and> filter is_store_update (snd (updateStatus e s i ns)) = [StoreUpdate i ns]
              \<and> filter is_alert (snd (updateStatus e s i ns)) = []"
    using updateStatus_registry_view [of e s i ns] by simp
qed

theorem absent_phone_fails_gracefully_witness:
  "(\<exists>r tr. sendStatusUpdateMessage demo_env (asha\<lparr> phone := JNull \<rparr>) ''confirmed''
              = (Returns (Some r), tr) \<and> \<not> success r \<and> filter is_fetch tr = [])
   \<and> fst (updateStatus demo_env (demo_state\<lparr> appointments := [asha\<lparr> phone := JNull \<rparr>] \<rparr>)
            (JStr ''a1'') ''confirmed'')
       = demo_state\<lparr> appointments := [asha\<lparr> phone := JNull, status := JStr ''confirmed'' \<rparr>] \<rparr>"
proof -
  let ?a = "asha\<lparr> phone := JNull \<rparr>"
  let ?s = "demo_state\<lparr> appointments := [?a] \<rparr>"
  have absent: "phone ?a = JNull \<or> phone ?a = JUndefined" by simp
  have tok: "truthy (WHATSAPP_TOKEN demo_env)" and pid: "truthy (PHONE_NUMBER_ID demo_env)"
    by (simp_all add: demo_env_def)
  have w: "worthy ''confirmed''" by (simp add: worthy_def)
  have ok: "store_update demo_env (JStr ''a1'') ''confirmed'' = Returns None
            \<and> find (\<lambda>b. apt_id b = JStr ''a1'') (appointments ?s) = Some ?a"
    by (simp add: demo_env_def asha_def)
  have p: "patch (JStr ''a1'') ''confirmed'' (appointments ?s)
             = [asha\<lparr> phone := JNull, status := JStr ''confirmed'' \<rparr>]"
    by (simp add: patch_def asha_def)
  from absent_phone_fails_gracefully [OF absent tok pid w, of "''x''" "JStr ''a1''" ?s] ok p
  show ?thesis by simp
qed

end
